theory Spec2Isabelle
  imports Main "HOL-Library.Word"
begin

section \<open>Machine types of Polyclinic.cpp\<close>

text \<open>
  The C++ type \<^verbatim>\<open>int\<close> is a 32-bit two's complement integer: a \<open>32 word\<close>, read
  with \<open>sint\<close>. Its \<open>+\<close> wraps around (ISO C++ leaves signed overflow undefined; the
  wrap is what the two's complement targets compute). \<^verbatim>\<open>size_t\<close> indices and vector
  sizes are natural numbers: every size a vector can have fits in \<^verbatim>\<open>size_t\<close>, and the
  source only compares them. \<^verbatim>\<open>std::string\<close> is a byte string, \<open>string\<close> here, with
  \<^verbatim>\<open>operator+\<close> as \<open>@\<close>; the Ukrainian literals of the source are written as their
  UTF-8 bytes, as they stand in the source file.
\<close>

type_synonym cint = "32 word"

definition INT_MAX :: nat where
  "INT_MAX = 2147483647"

definition digit_char :: "nat \<Rightarrow> char" where
  "digit_char d = ''0123456789'' ! d"

fun decimal :: "nat \<Rightarrow> string" where
  "decimal n = (if n < 10 then [digit_char n] else decimal (n div 10) @ [digit_char (n mod 10)])"

declare decimal.simps [simp del]

text \<open>\<^verbatim>\<open>std::to_string(int)\<close>, which is also what \<^verbatim>\<open>ostream << int\<close> prints: the decimal
  digits, after a minus sign for a negative value.\<close>

definition to_string :: "cint \<Rightarrow> string" where
  "to_string v = (if sint v < 0 then CHR ''-'' # decimal (nat (- sint v)) else decimal (nat (sint v)))"

section \<open>Exceptions\<close>

text \<open>The three exception classes, each carrying the text of \<^verbatim>\<open>what()\<close>.\<close>

datatype exn = FileSaveError string | EmptyClinicError string | PatientIndexError string

datatype 'a outcome = Return 'a | Throw exn

section \<open>Patient and its derived classes\<close>

text \<open>
  A value of type \<open>Patient\<close> is an object reachable through \<^verbatim>\<open>Patient&\<close> or
  \<^verbatim>\<open>std::unique_ptr<Patient>\<close>; its constructor is the dynamic class of the object. The
  first three arguments are the base class's \<^verbatim>\<open>name\<close>, \<^verbatim>\<open>age\<close>, \<^verbatim>\<open>disease\<close>; then
  \<^verbatim>\<open>parentContact\<close> for a ChildPatient, \<^verbatim>\<open>allergies\<close> and \<^verbatim>\<open>contraindications\<close> for
  an ElderPatient.
\<close>

datatype Patient =
    Patient string cint string
  | ChildPatient string cint string string
  | ElderPatient string cint string string string

datatype PatientClass = Class_Patient | Class_ChildPatient | Class_ElderPatient

fun dynamic_class :: "Patient \<Rightarrow> PatientClass" where
  "dynamic_class (Patient n a d) = Class_Patient"
| "dynamic_class (ChildPatient n a d pc) = Class_ChildPatient"
| "dynamic_class (ElderPatient n a d al co) = Class_ElderPatient"

text \<open>The literals \<^verbatim>\<open>"Nevidomo"\<close> (unknown) and \<^verbatim>\<open>"Nemaye"\<close> (none) of line 28, in
  Cyrillic in the source.\<close>

definition lit_unknown :: string where
  "lit_unknown = [CHR 0xD0, CHR 0x9D, CHR 0xD0, CHR 0xB5, CHR 0xD0, CHR 0xB2, CHR 0xD1, CHR 0x96,
     CHR 0xD0, CHR 0xB4, CHR 0xD0, CHR 0xBE, CHR 0xD0, CHR 0xBC, CHR 0xD0, CHR 0xBE]"

definition lit_none :: string where
  "lit_none = [CHR 0xD0, CHR 0x9D, CHR 0xD0, CHR 0xB5, CHR 0xD0, CHR 0xBC, CHR 0xD0, CHR 0xB0,
     CHR 0xD1, CHR 0x94]"

text \<open>The literal of line 82: "no parent contact".\<close>

definition lit_no_parent_contact :: string where
  "lit_no_parent_contact = lit_none @ [CHR '' '', CHR 0xD0, CHR 0xBA, CHR 0xD0, CHR 0xBE,
     CHR 0xD0, CHR 0xBD, CHR 0xD1, CHR 0x82, CHR 0xD0, CHR 0xB0, CHR 0xD0, CHR 0xBA, CHR 0xD1,
     CHR 0x82, CHR 0xD1, CHR 0x83, CHR '' '', CHR 0xD0, CHR 0xB1, CHR 0xD0, CHR 0xB0, CHR 0xD1,
     CHR 0x82, CHR 0xD1, CHR 0x8C, CHR 0xD0, CHR 0xBA, CHR 0xD1, CHR 0x96, CHR 0xD0, CHR 0xB2]"

text \<open>The default constructors \<^verbatim>\<open>Patient()\<close>, \<^verbatim>\<open>ChildPatient()\<close>, \<^verbatim>\<open>ElderPatient()\<close>.\<close>

definition Patient_default :: Patient where
  "Patient_default = Patient lit_unknown 0 lit_none"

definition ChildPatient_default :: Patient where
  "ChildPatient_default = ChildPatient lit_unknown 0 lit_none lit_no_parent_contact"

definition ElderPatient_default :: Patient where
  "ElderPatient_default = ElderPatient lit_unknown 0 lit_none lit_none lit_none"

fun getName :: "Patient \<Rightarrow> string" where
  "getName (Patient n a d) = n"
| "getName (ChildPatient n a d pc) = n"
| "getName (ElderPatient n a d al co) = n"

fun getAge :: "Patient \<Rightarrow> cint" where
  "getAge (Patient n a d) = a"
| "getAge (ChildPatient n a d pc) = a"
| "getAge (ElderPatient n a d al co) = a"

fun getDisease :: "Patient \<Rightarrow> string" where
  "getDisease (Patient n a d) = d"
| "getDisease (ChildPatient n a d pc) = d"
| "getDisease (ElderPatient n a d al co) = d"

text \<open>The copy constructor \<^verbatim>\<open>Patient(const Patient& other)\<close> builds a plain Patient from
  the base fields of its argument.\<close>

definition Patient_copy :: "Patient \<Rightarrow> Patient" where
  "Patient_copy other = Patient (getName other) (getAge other) (getDisease other)"

text \<open>The virtual \<^verbatim>\<open>clone()\<close>: each class copy-constructs an object of its own class. The
  implicit copy constructors of the derived classes copy the base part and then the
  members.\<close>

fun clone :: "Patient \<Rightarrow> Patient" where
  "clone (Patient n a d) = Patient_copy (Patient n a d)"
| "clone (ChildPatient n a d pc) =
     ChildPatient (getName (ChildPatient n a d pc)) (getAge (ChildPatient n a d pc))
       (getDisease (ChildPatient n a d pc)) pc"
| "clone (ElderPatient n a d al co) =
     ElderPatient (getName (ElderPatient n a d al co)) (getAge (ElderPatient n a d al co))
       (getDisease (ElderPatient n a d al co)) al co"

text \<open>The virtual \<^verbatim>\<open>toLine()\<close>, with the left-to-right concatenations of the source.\<close>

fun toLine :: "Patient \<Rightarrow> string" where
  "toLine (Patient n a d) = (((((''Patient'' @ ''|'') @ n) @ ''|'') @ to_string a) @ ''|'') @ d"
| "toLine (ChildPatient n a d pc) =
     (((((((''Child'' @ ''|'') @ n) @ ''|'') @ to_string a) @ ''|'') @ d) @ ''|'') @ pc"
| "toLine (ElderPatient n a d al co) =
     (((((((((''Elder'' @ ''|'') @ n) @ ''|'') @ to_string a) @ ''|'') @ d) @ ''|'') @ al)
        @ ''|'') @ co"

text \<open>\<^verbatim>\<open>ChildPatient::needParentalPermission\<close>, called on ChildPatient objects only.\<close>

definition needParentalPermission :: "Patient \<Rightarrow> bool" where
  "needParentalPermission p = (sint (getAge p) < 18)"

text \<open>\<^verbatim>\<open>Patient::operator==\<close> is not virtual and takes \<^verbatim>\<open>const Patient&\<close>: it compares the
  base fields of any two objects.\<close>

definition Patient_eq :: "Patient \<Rightarrow> Patient \<Rightarrow> bool" where
  "Patient_eq this other = (getName this = getName other \<and> getAge this = getAge other)"

definition Patient_neq :: "Patient \<Rightarrow> Patient \<Rightarrow> bool" where
  "Patient_neq this other = (\<not> Patient_eq this other)"

section \<open>Console output of a patient\<close>

text \<open>The literals written by the \<^verbatim>\<open>printInfo\<close> methods (lines 41-43, 98-102, 136-143):
  the labels for a patient, a child patient and an elder patient, for age, diagnosis, parent
  contact, permission needed, yes, no, allergies and contraindications.\<close>

definition lit_patient :: string where
  "lit_patient = [CHR 0xD0, CHR 0x9F, CHR 0xD0, CHR 0xB0, CHR 0xD1, CHR 0x86, CHR 0xD1, CHR 0x96,
     CHR 0xD1, CHR 0x94, CHR 0xD0, CHR 0xBD, CHR 0xD1, CHR 0x82, CHR '':'', CHR '' '']"

definition lit_age :: string where
  "lit_age = [CHR '','', CHR '' '', CHR 0xD0, CHR 0xB2, CHR 0xD1, CHR 0x96, CHR 0xD0, CHR 0xBA,
     CHR '':'', CHR '' '']"

definition lit_diagnosis :: string where
  "lit_diagnosis = [CHR '','', CHR '' '', CHR 0xD0, CHR 0xB4, CHR 0xD1, CHR 0x96, CHR 0xD0,
     CHR 0xB0, CHR 0xD0, CHR 0xB3, CHR 0xD0, CHR 0xBD, CHR 0xD0, CHR 0xBE, CHR 0xD0, CHR 0xB7,
     CHR '':'', CHR '' '']"

definition lit_child_patient :: string where
  "lit_child_patient = [CHR 0xD0, CHR 0x94, CHR 0xD0, CHR 0xB8, CHR 0xD1, CHR 0x82, CHR 0xD1,
     CHR 0x8F, CHR 0xD1, CHR 0x87, CHR 0xD0, CHR 0xB8, CHR 0xD0, CHR 0xB9, CHR '' '', CHR 0xD0,
     CHR 0xBF, CHR 0xD0, CHR 0xB0, CHR 0xD1, CHR 0x86, CHR 0xD1, CHR 0x96, CHR 0xD1, CHR 0x94,
     CHR 0xD0, CHR 0xBD, CHR 0xD1, CHR 0x82, CHR '':'', CHR '' '']"

definition lit_parent_contact :: string where
  "lit_parent_contact = [CHR '','', CHR '' '', CHR 0xD0, CHR 0xBA, CHR 0xD0, CHR 0xBE, CHR 0xD0,
     CHR 0xBD, CHR 0xD1, CHR 0x82, CHR 0xD0, CHR 0xB0, CHR 0xD0, CHR 0xBA, CHR 0xD1, CHR 0x82,
     CHR '' '', CHR 0xD0, CHR 0xB1, CHR 0xD0, CHR 0xB0, CHR 0xD1, CHR 0x82, CHR 0xD1, CHR 0x8C,
     CHR 0xD0, CHR 0xBA, CHR 0xD1, CHR 0x96, CHR 0xD0, CHR 0xB2, CHR '':'', CHR '' '']"

definition lit_permission :: string where
  "lit_permission = [CHR '','', CHR '' '', CHR 0xD0, CHR 0xBF, CHR 0xD0, CHR 0xBE, CHR 0xD1,
     CHR 0x82, CHR 0xD1, CHR 0x80, CHR 0xD1, CHR 0x96, CHR 0xD0, CHR 0xB1, CHR 0xD0, CHR 0xB5,
     CHR 0xD0, CHR 0xBD, CHR '' '', CHR 0xD0, CHR 0xB4, CHR 0xD0, CHR 0xBE, CHR 0xD0, CHR 0xB7,
     CHR 0xD0, CHR 0xB2, CHR 0xD1, CHR 0x96, CHR 0xD0, CHR 0xBB, CHR '':'', CHR '' '']"

definition lit_yes :: string where
  "lit_yes = [CHR 0xD1, CHR 0x82, CHR 0xD0, CHR 0xB0, CHR 0xD0, CHR 0xBA]"

definition lit_no :: string where
  "lit_no = [CHR 0xD0, CHR 0xBD, CHR 0xD1, CHR 0x96]"

definition lit_allergies :: string where
  "lit_allergies = [CHR '' '', CHR '' '', CHR 0xD0, CHR 0x90, CHR 0xD0, CHR 0xBB, CHR 0xD0,
     CHR 0xB5, CHR 0xD1, CHR 0x80, CHR 0xD0, CHR 0xB3, CHR 0xD1, CHR 0x96, CHR 0xD1, CHR 0x97,
     CHR '':'', CHR '' '']"

definition lit_contraindications :: string where
  "lit_contraindications = [CHR '' '', CHR ''|'', CHR '' '', CHR 0xD0, CHR 0x9F, CHR 0xD1,
     CHR 0x80, CHR 0xD0, CHR 0xBE, CHR 0xD1, CHR 0x82, CHR 0xD0, CHR 0xB8, CHR 0xD0, CHR 0xBF,
     CHR 0xD0, CHR 0xBE, CHR 0xD0, CHR 0xBA, CHR 0xD0, CHR 0xB0, CHR 0xD0, CHR 0xB7, CHR 0xD0,
     CHR 0xB0, CHR 0xD0, CHR 0xBD, CHR 0xD0, CHR 0xBD, CHR 0xD1, CHR 0x8F, CHR '':'', CHR '' '']"

definition lit_elder_patient :: string where
  "lit_elder_patient = [CHR 0xD0, CHR 0x9B, CHR 0xD1, CHR 0x96, CHR 0xD1, CHR 0x82, CHR 0xD0,
     CHR 0xBD, CHR 0xD1, CHR 0x96, CHR 0xD0, CHR 0xB9, CHR '' '', CHR 0xD0, CHR 0xBF, CHR 0xD0,
     CHR 0xB0, CHR 0xD1, CHR 0x86, CHR 0xD1, CHR 0x96, CHR 0xD1, CHR 0x94, CHR 0xD0, CHR 0xBD,
     CHR 0xD1, CHR 0x82, CHR '':'', CHR '' '']"

definition newline :: string where
  "newline = [CHR 0x0A]"

text \<open>\<^verbatim>\<open>ElderPatient::printMedicalWarnings\<close>, given the two members it prints.\<close>

definition printMedicalWarnings :: "string \<Rightarrow> string \<Rightarrow> string" where
  "printMedicalWarnings al co = lit_allergies @ al @ lit_contraindications @ co @ newline"

text \<open>The virtual \<^verbatim>\<open>printInfo()\<close>: the bytes it sends to \<^verbatim>\<open>std::cout\<close>.\<close>

fun printInfo :: "Patient \<Rightarrow> string" where
  "printInfo (Patient n a d) =
     lit_patient @ n @ lit_age @ to_string a @ lit_diagnosis @ d @ newline"
| "printInfo (ChildPatient n a d pc) =
     lit_child_patient @ n @ lit_age @ to_string a @ lit_diagnosis @ d
       @ lit_parent_contact @ pc
       @ lit_permission
       @ (if needParentalPermission (ChildPatient n a d pc) then lit_yes else lit_no)
       @ newline"
| "printInfo (ElderPatient n a d al co) =
     lit_elder_patient @ n @ lit_age @ to_string a @ lit_diagnosis @ d @ newline
       @ printMedicalWarnings al co"

section \<open>Polyclinic\<close>

text \<open>
  The vector of \<^verbatim>\<open>std::unique_ptr<Patient>\<close> is the list of the objects it owns: a
  \<^verbatim>\<open>unique_ptr\<close> is the only owner of its object, the class hands out \<^verbatim>\<open>const Patient*\<close>
  only, and every insertion stores a fresh clone, so no object is reachable from two
  rosters. Methods that modify \<^verbatim>\<open>*this\<close> return the new state of the receiver. The two
  merging operators also return their operands as the call leaves them, so that what they
  modify and what they only read can be stated; for the other \<^verbatim>\<open>const\<close> methods and
  \<^verbatim>\<open>const&\<close> parameters the objects read are not returned.
\<close>

record Polyclinic =
  name :: string
  address :: string
  doctorsCount :: cint
  patients :: "Patient list"

text \<open>The literal \<^verbatim>\<open>"Bez nazvy"\<close> (no name) of line 168.\<close>

definition lit_no_name :: string where
  "lit_no_name = [CHR 0xD0, CHR 0x91, CHR 0xD0, CHR 0xB5, CHR 0xD0, CHR 0xB7, CHR '' '', CHR 0xD0,
     CHR 0xBD, CHR 0xD0, CHR 0xB0, CHR 0xD0, CHR 0xB7, CHR 0xD0, CHR 0xB2, CHR 0xD0, CHR 0xB8]"

text \<open>The \<^verbatim>\<open>what()\<close> texts of lines 215 and 221: "no patients to remove" and "index out of
  range".\<close>

definition lit_no_patients_to_remove :: string where
  "lit_no_patients_to_remove = lit_none @ [CHR '' '', CHR 0xD0, CHR 0xBF, CHR 0xD0, CHR 0xB0,
     CHR 0xD1, CHR 0x86, CHR 0xD1, CHR 0x96, CHR 0xD1, CHR 0x94, CHR 0xD0, CHR 0xBD, CHR 0xD1,
     CHR 0x82, CHR 0xD1, CHR 0x96, CHR 0xD0, CHR 0xB2, CHR '' '', CHR 0xD0, CHR 0xB4, CHR 0xD0,
     CHR 0xBB, CHR 0xD1, CHR 0x8F, CHR '' '', CHR 0xD0, CHR 0xB2, CHR 0xD0, CHR 0xB8, CHR 0xD0,
     CHR 0xB4, CHR 0xD0, CHR 0xB0, CHR 0xD0, CHR 0xBB, CHR 0xD0, CHR 0xB5, CHR 0xD0, CHR 0xBD,
     CHR 0xD0, CHR 0xBD, CHR 0xD1, CHR 0x8F]"

definition lit_index_out_of_range :: string where
  "lit_index_out_of_range = [CHR 0xD0, CHR 0x86, CHR 0xD0, CHR 0xBD, CHR 0xD0, CHR 0xB4, CHR 0xD0,
     CHR 0xB5, CHR 0xD0, CHR 0xBA, CHR 0xD1, CHR 0x81, CHR '' '', CHR 0xD0, CHR 0xB7, CHR 0xD0,
     CHR 0xB0, CHR '' '', CHR 0xD0, CHR 0xBC, CHR 0xD0, CHR 0xB5, CHR 0xD0, CHR 0xB6, CHR 0xD0,
     CHR 0xB0, CHR 0xD0, CHR 0xBC, CHR 0xD0, CHR 0xB8, CHR '' '', CHR 0xD0, CHR 0xB4, CHR 0xD1,
     CHR 0x96, CHR 0xD0, CHR 0xB0, CHR 0xD0, CHR 0xBF, CHR 0xD0, CHR 0xB0, CHR 0xD0, CHR 0xB7,
     CHR 0xD0, CHR 0xBE, CHR 0xD0, CHR 0xBD, CHR 0xD1, CHR 0x83]"

definition Polyclinic_default :: Polyclinic where
  "Polyclinic_default =
     \<lparr>name = lit_no_name, address = lit_unknown, doctorsCount = 0, patients = []\<rparr>"

text \<open>\<^verbatim>\<open>Polyclinic(name, address, doctors)\<close>: a negative number of doctors becomes 0.\<close>

definition Polyclinic_ctor :: "string \<Rightarrow> string \<Rightarrow> cint \<Rightarrow> Polyclinic" where
  "Polyclinic_ctor n a doctors =
     \<lparr>name = n, address = a,
      doctorsCount = (if sint doctors < 0 then 0 else doctors), patients = []\<rparr>"

text \<open>The loop \<^verbatim>\<open>for (const auto& p : src) dst.push_back(p->clone());\<close> of the copy
  constructor, of \<^verbatim>\<open>operator+\<close> and of \<^verbatim>\<open>operator+=\<close>: \<open>dst\<close> is the destination vector so
  far. (\<^verbatim>\<open>reserve\<close> changes the capacity only.)\<close>

fun push_back_clones :: "Patient list \<Rightarrow> Patient list \<Rightarrow> Patient list" where
  "push_back_clones dst [] = dst"
| "push_back_clones dst (p # src) = push_back_clones (dst @ [clone p]) src"

text \<open>The copy constructor \<^verbatim>\<open>Polyclinic(const Polyclinic& other)\<close>.\<close>

definition Polyclinic_copy :: "Polyclinic \<Rightarrow> Polyclinic" where
  "Polyclinic_copy other =
     \<lparr>name = name other, address = address other, doctorsCount = doctorsCount other,
      patients = push_back_clones [] (patients other)\<rparr>"

definition addPatient :: "Polyclinic \<Rightarrow> Patient \<Rightarrow> Polyclinic" where
  "addPatient this p = this\<lparr>patients := patients this @ [clone p]\<rparr>"

definition addChild :: "Polyclinic \<Rightarrow> string \<Rightarrow> cint \<Rightarrow> string \<Rightarrow> string \<Rightarrow> Polyclinic" where
  "addChild this pname a d pc = addPatient this (ChildPatient pname a d pc)"

definition addElder ::
  "Polyclinic \<Rightarrow> string \<Rightarrow> cint \<Rightarrow> string \<Rightarrow> string \<Rightarrow> string \<Rightarrow> Polyclinic" where
  "addElder this pname a d al co = addPatient this (ElderPatient pname a d al co)"

text \<open>\<^verbatim>\<open>removeLastPatient\<close>: the outcome and the state of the receiver afterwards.
  \<^verbatim>\<open>pop_back\<close> destroys the last element.\<close>

definition removeLastPatient :: "Polyclinic \<Rightarrow> unit outcome \<times> Polyclinic" where
  "removeLastPatient this =
     (if patients this = [] then (Throw (EmptyClinicError lit_no_patients_to_remove), this)
      else (Return (), this\<lparr>patients := butlast (patients this)\<rparr>))"

text \<open>\<^verbatim>\<open>vector::erase\<close> at offset \<open>i\<close> from \<^verbatim>\<open>begin()\<close>: the elements behind the position
  move one place down and the vector shrinks by one. The source calls it below the size
  only.\<close>

fun erase :: "'a list \<Rightarrow> nat \<Rightarrow> 'a list" where
  "erase [] i = []"
| "erase (x # xs) 0 = xs"
| "erase (x # xs) (Suc i) = x # erase xs i"

definition removePatientByIndex :: "Polyclinic \<Rightarrow> nat \<Rightarrow> unit outcome \<times> Polyclinic" where
  "removePatientByIndex this index =
     (if index \<ge> length (patients this)
      then (Throw (PatientIndexError lit_index_out_of_range), this)
      else (Return (), this\<lparr>patients := erase (patients this) index\<rparr>))"

text \<open>\<^verbatim>\<open>getPatientsCount\<close> converts the size to \<^verbatim>\<open>int\<close>.\<close>

definition getPatientsCount :: "Polyclinic \<Rightarrow> cint" where
  "getPatientsCount this = word_of_nat (length (patients this))"

text \<open>\<^verbatim>\<open>getPatientPtr\<close>: \<open>None\<close> is \<^verbatim>\<open>nullptr\<close>.\<close>

definition getPatientPtr :: "Polyclinic \<Rightarrow> nat \<Rightarrow> Patient option" where
  "getPatientPtr this index =
     (if index < length (patients this) then Some (patients this ! index) else None)"

text \<open>The increment and decrement operators. The prefix forms return \<^verbatim>\<open>*this\<close>, the
  receiver's new state; the postfix forms return the copy \<open>t\<close> by value, next to the
  receiver's new state. Where a compiler does not elide it, returning a local roster by
  value copy-constructs it once more; a copy has the fields of its source (lemma
  \<open>Polyclinic_copy_same\<close> below), so the returned value is the same either way.\<close>

definition operator_preinc :: "Polyclinic \<Rightarrow> Polyclinic" where
  "operator_preinc this = addPatient this Patient_default"

definition operator_postinc :: "Polyclinic \<Rightarrow> Polyclinic \<times> Polyclinic" where
  "operator_postinc this = (let t = Polyclinic_copy this; this' = operator_preinc this in (t, this'))"

definition operator_predec :: "Polyclinic \<Rightarrow> unit outcome \<times> Polyclinic" where
  "operator_predec this = removeLastPatient this"

definition operator_postdec :: "Polyclinic \<Rightarrow> Polyclinic outcome \<times> Polyclinic" where
  "operator_postdec this =
     (let t = Polyclinic_copy this in
      case operator_predec this of
        (Throw e, this') \<Rightarrow> (Throw e, this')
      | (Return u, this') \<Rightarrow> (Return t, this'))"

text \<open>\<^verbatim>\<open>operator+\<close>: the statements of the source in their order. Every assignment of the
  body is to the local roster \<^verbatim>\<open>merged\<close>; \<^verbatim>\<open>*this\<close> and \<^verbatim>\<open>other\<close> are read. The result is
  the returned roster, then \<^verbatim>\<open>*this\<close> and \<^verbatim>\<open>other\<close> as they are after the call.\<close>

definition operator_plus :: "Polyclinic \<Rightarrow> Polyclinic \<Rightarrow> Polyclinic \<times> Polyclinic \<times> Polyclinic" where
  "operator_plus this other =
     (let merged = Polyclinic_copy this;
          merged = merged\<lparr>name := (name this @ '' + '') @ name other\<rparr>;
          merged = merged\<lparr>doctorsCount := doctorsCount this + doctorsCount other\<rparr>;
          merged = merged\<lparr>patients := push_back_clones (patients merged) (patients other)\<rparr>
      in (merged, this, other))"

text \<open>\<^verbatim>\<open>operator+=\<close>: the same three steps, assigned to the members of \<^verbatim>\<open>*this\<close>. The
  result is \<^verbatim>\<open>*this\<close> (which the operator returns by reference) and \<^verbatim>\<open>other\<close>, as they
  are after the call.\<close>

definition operator_plus_assign :: "Polyclinic \<Rightarrow> Polyclinic \<Rightarrow> Polyclinic \<times> Polyclinic" where
  "operator_plus_assign this other =
     (let this1 = this\<lparr>name := (name this @ '' + '') @ name other\<rparr>;
          this2 = this1\<lparr>doctorsCount := doctorsCount this1 + doctorsCount other\<rparr>;
          this3 = this2\<lparr>patients := push_back_clones (patients this2) (patients other)\<rparr>
      in (this3, other))"

text \<open>\<^verbatim>\<open>Polyclinic::operator==\<close> and \<^verbatim>\<open>operator!=\<close>.\<close>

definition Polyclinic_eq :: "Polyclinic \<Rightarrow> Polyclinic \<Rightarrow> bool" where
  "Polyclinic_eq this other = (getPatientsCount this = getPatientsCount other)"

definition Polyclinic_neq :: "Polyclinic \<Rightarrow> Polyclinic \<Rightarrow> bool" where
  "Polyclinic_neq this other = (\<not> Polyclinic_eq this other)"

section \<open>The serialized line as the specification words it\<close>

text \<open>
  The specification describes a record's line as the variant tag, then name, age and
  disease, then the variant's extra fields, separated by a bar. These three definitions
  follow those words, to be compared with \<open>toLine\<close>.
\<close>

fun spec_variant_tag :: "Patient \<Rightarrow> string" where
  "spec_variant_tag (Patient n a d) = ''Patient''"
| "spec_variant_tag (ChildPatient n a d pc) = ''Child''"
| "spec_variant_tag (ElderPatient n a d al co) = ''Elder''"

fun spec_extra_fields :: "Patient \<Rightarrow> string list" where
  "spec_extra_fields (Patient n a d) = []"
| "spec_extra_fields (ChildPatient n a d pc) = [pc]"
| "spec_extra_fields (ElderPatient n a d al co) = [al, co]"

fun spec_join_fields :: "string list \<Rightarrow> string" where
  "spec_join_fields [] = []"
| "spec_join_fields [f] = f"
| "spec_join_fields (f # g # fs) = f @ CHR ''|'' # spec_join_fields (g # fs)"

definition spec_serializeLine :: "Patient \<Rightarrow> string" where
  "spec_serializeLine p =
     spec_join_fields
       (spec_variant_tag p # getName p # to_string (getAge p) # getDisease p # spec_extra_fields p)"

section \<open>Sample rosters\<close>

text \<open>Sample data in the shape of the driver's, used to instantiate the theorems below.\<close>

definition sample_child :: Patient where
  "sample_child = ChildPatient ''Marta'' 7 ''Cold'' ''+380501112233''"

definition sample_elder :: Patient where
  "sample_elder = ElderPatient ''Petro'' 72 ''Heart disease'' ''Penicillin'' ''Heavy exercise''"

definition sample_patient :: Patient where
  "sample_patient = Patient ''Oleksii'' 40 ''Flu''"

definition sample_empty :: Polyclinic where
  "sample_empty = Polyclinic_ctor ''Empty Clinic'' ''Unknown address'' 0"

definition sample_clinic :: Polyclinic where
  "sample_clinic =
     addPatient
       (addElder
          (addChild (Polyclinic_ctor ''City Clinic 1'' ''Main St 10'' 25)
             ''Marta'' 7 ''Cold'' ''+380501112233'')
          ''Petro'' 72 ''Heart disease'' ''Penicillin'' ''Heavy exercise'')
       sample_patient"

definition sample_other :: Polyclinic where
  "sample_other = addChild (Polyclinic_ctor ''Clinic 2'' ''Side St 3'' 4) ''Oleg'' 12 ''Injury'' ''+380631234567''"

section \<open>Facts about the machine types\<close>

lemma sint_word_of_nat_32: "n \<le> INT_MAX \<Longrightarrow> sint (word_of_nat n :: cint) = int n"
  by (simp add: signed_of_nat signed_take_bit_int_eq_self INT_MAX_def)

lemma sint_plus_32:
  "- (2 ^ 31) \<le> sint (a :: cint) + sint b \<Longrightarrow> sint a + sint b < 2 ^ 31
   \<Longrightarrow> sint (a + b) = sint a + sint b"
  by (simp add: sint_word_ariths signed_take_bit_int_eq_self)

lemma sint_getPatientsCount:
  "length (patients R) \<le> INT_MAX \<Longrightarrow> sint (getPatientsCount R) = int (length (patients R))"
  by (simp add: getPatientsCount_def sint_word_of_nat_32)

lemma getPatientsCount_eq_0_iff:
  assumes "length (patients R) \<le> INT_MAX"
  shows "getPatientsCount R = 0 \<longleftrightarrow> patients R = []"
proof
  assume "getPatientsCount R = 0"
  then have "sint (getPatientsCount R) = 0" by simp
  with assms show "patients R = []" by (simp add: sint_getPatientsCount)
next
  assume "patients R = []"
  then show "getPatientsCount R = 0" by (simp add: getPatientsCount_def)
qed

lemma to_string_7: "to_string 7 = ''7''"
  by (simp add: to_string_def decimal.simps digit_char_def)

section \<open>Cloning and the copying loop\<close>

lemma clone_same: "clone p = p"
  by (cases p) (simp_all add: Patient_copy_def)

lemma push_back_clones_append: "push_back_clones dst src = dst @ map clone src"
  by (induction src arbitrary: dst) simp_all

lemma map_clone_same: "map clone ps = ps"
  by (induction ps) (simp_all add: clone_same)

lemma patients_Polyclinic_copy: "patients (Polyclinic_copy R) = patients R"
  by (simp add: Polyclinic_copy_def push_back_clones_append map_clone_same)

lemma Polyclinic_copy_same: "Polyclinic_copy R = R"
  by (simp add: Polyclinic_copy_def push_back_clones_append map_clone_same)

lemma erase_take_drop: "i < length xs \<Longrightarrow> erase xs i = take i xs @ drop (Suc i) xs"
  by (induction xs i rule: erase.induct) simp_all

lemma patients_sample_clinic: "patients sample_clinic = [sample_child, sample_elder, sample_patient]"
  by (simp add: sample_clinic_def addPatient_def addElder_def addChild_def Polyclinic_ctor_def
      sample_child_def sample_elder_def sample_patient_def Patient_copy_def)

lemma patients_sample_empty: "patients sample_empty = []"
  by (simp add: sample_empty_def Polyclinic_ctor_def)

lemma patients_sample_other: "patients sample_other = [ChildPatient ''Oleg'' 12 ''Injury'' ''+380631234567'']"
  by (simp add: sample_other_def addChild_def addPatient_def Polyclinic_ctor_def)

text \<open>\<^verbatim>\<open>operator+=\<close> leaves in its receiver the roster that \<^verbatim>\<open>operator+\<close> returns, and
  reads its argument only.\<close>

lemma operator_plus_assign_receiver:
  "fst (operator_plus_assign A B) = fst (operator_plus A B) \<and> snd (operator_plus_assign A B) = B"
  by (simp add: operator_plus_assign_def operator_plus_def Let_def Polyclinic_copy_same)

section \<open>The claims\<close>

text \<open>
  C1. Copy-constructing a roster \<open>R\<close> yields a roster with the same name, address and
  number of doctors and the same count (as a size and as \<^verbatim>\<open>getPatientsCount\<close>); at every
  index \<^verbatim>\<open>getPatientPtr\<close> finds in the copy what it finds in \<open>R\<close>, and below the size the
  copy's record has the dynamic class of \<open>R\<close>'s record, is equal to it in every field, and
  so prints and serializes the same.
\<close>

theorem Polyclinic_copy_spec:
  "name (Polyclinic_copy R) = name R
   \<and> address (Polyclinic_copy R) = address R
   \<and> doctorsCount (Polyclinic_copy R) = doctorsCount R
   \<and> length (patients (Polyclinic_copy R)) = length (patients R)
   \<and> getPatientsCount (Polyclinic_copy R) = getPatientsCount R
   \<and> (\<forall>i. getPatientPtr (Polyclinic_copy R) i = getPatientPtr R i)
   \<and> (\<forall>i < length (patients R).
        dynamic_class (patients (Polyclinic_copy R) ! i) = dynamic_class (patients R ! i)
        \<and> patients (Polyclinic_copy R) ! i = patients R ! i
        \<and> printInfo (patients (Polyclinic_copy R) ! i) = printInfo (patients R ! i)
        \<and> toLine (patients (Polyclinic_copy R) ! i) = toLine (patients R ! i))"
proof -
  have ps: "patients (Polyclinic_copy R) = patients R"
    by (rule patients_Polyclinic_copy)
  have scalars: "name (Polyclinic_copy R) = name R \<and> address (Polyclinic_copy R) = address R
      \<and> doctorsCount (Polyclinic_copy R) = doctorsCount R"
    by (simp add: Polyclinic_copy_def)
  have counts: "getPatientsCount (Polyclinic_copy R) = getPatientsCount R"
    by (simp add: getPatientsCount_def ps)
  have ptrs: "\<forall>i. getPatientPtr (Polyclinic_copy R) i = getPatientPtr R i"
    by (simp add: getPatientPtr_def ps)
  from scalars counts ptrs show ?thesis by (simp add: ps)
qed

theorem Polyclinic_copy_spec_witness:
  "(1::nat) < length (patients sample_clinic)
   \<and> dynamic_class (patients (Polyclinic_copy sample_clinic) ! 1) = Class_ElderPatient
   \<and> patients (Polyclinic_copy sample_clinic) ! 1 = sample_elder
   \<and> toLine (patients (Polyclinic_copy sample_clinic) ! 1)
       = ''Elder|Petro|72|Heart disease|Penicillin|Heavy exercise''"
proof -
  have h: "(1::nat) < length (patients sample_clinic)"
    by (simp add: patients_sample_clinic)
  have "\<forall>i < length (patients sample_clinic).
        dynamic_class (patients (Polyclinic_copy sample_clinic) ! i)
          = dynamic_class (patients sample_clinic ! i)
        \<and> patients (Polyclinic_copy sample_clinic) ! i = patients sample_clinic ! i
        \<and> printInfo (patients (Polyclinic_copy sample_clinic) ! i)
          = printInfo (patients sample_clinic ! i)
        \<and> toLine (patients (Polyclinic_copy sample_clinic) ! i)
          = toLine (patients sample_clinic ! i)"
    using Polyclinic_copy_spec [of sample_clinic] by blast
  with h have "dynamic_class (patients (Polyclinic_copy sample_clinic) ! 1)
          = dynamic_class (patients sample_clinic ! 1)
        \<and> patients (Polyclinic_copy sample_clinic) ! 1 = patients sample_clinic ! 1
        \<and> toLine (patients (Polyclinic_copy sample_clinic) ! 1)
          = toLine (patients sample_clinic ! 1)"
    by blast
  moreover have "patients sample_clinic ! 1 = sample_elder"
    by (simp add: patients_sample_clinic)
  moreover have "dynamic_class sample_elder = Class_ElderPatient"
    by (simp add: sample_elder_def)
  moreover have "toLine sample_elder = ''Elder|Petro|72|Heart disease|Penicillin|Heavy exercise''"
    by (simp add: sample_elder_def to_string_def decimal.simps digit_char_def)
  ultimately show ?thesis using h by simp
qed

text \<open>
  C2, as the specification words it: a Patient constructed with no arguments would have
  the name "Unknown", the age 0 and the disease "None". The constructor of the source
  stores Ukrainian words, so the statement fails on the default patient.
\<close>

theorem Patient_default_english_counterexample:
  "\<not> (getName Patient_default = ''Unknown'' \<and> getAge Patient_default = 0
      \<and> getDisease Patient_default = ''None'')"
  by (simp add: Patient_default_def lit_unknown_def)

text \<open>
  C2, amended: a Patient constructed with no arguments is a plain Patient whose name is
  the 16 bytes of the Ukrainian word for "unknown" in UTF-8, whose age is 0 and whose
  disease is the 10 bytes of the Ukrainian word for "none" in UTF-8.
\<close>

theorem Patient_default_spec:
  "getName Patient_default =
     [CHR 0xD0, CHR 0x9D, CHR 0xD0, CHR 0xB5, CHR 0xD0, CHR 0xB2, CHR 0xD1, CHR 0x96,
      CHR 0xD0, CHR 0xB4, CHR 0xD0, CHR 0xBE, CHR 0xD0, CHR 0xBC, CHR 0xD0, CHR 0xBE]
   \<and> getAge Patient_default = 0
   \<and> sint (getAge Patient_default) = 0
   \<and> getDisease Patient_default =
     [CHR 0xD0, CHR 0x9D, CHR 0xD0, CHR 0xB5, CHR 0xD0, CHR 0xBC, CHR 0xD0, CHR 0xB0,
      CHR 0xD1, CHR 0x94]
   \<and> dynamic_class Patient_default = Class_Patient"
  by (simp add: Patient_default_def lit_unknown_def lit_none_def)

text \<open>
  C3. The ChildPatient Marta, aged 7, with the disease Cold and the parent contact
  +380501112233 serializes to \<^verbatim>\<open>Child|Marta|7|Cold|+380501112233\<close>. For every record \<open>p\<close> the
  line is the variant tag, the name, the age in decimal and the disease, followed by the
  extra fields of the variant, joined by bars; a bar inside a field is copied as it is.
\<close>

theorem toLine_spec:
  "toLine (ChildPatient ''Marta'' 7 ''Cold'' ''+380501112233'') = ''Child|Marta|7|Cold|+380501112233''
   \<and> toLine p = spec_serializeLine p
   \<and> toLine (Patient n a d) = ''Patient|'' @ n @ ''|'' @ to_string a @ ''|'' @ d
   \<and> toLine (ChildPatient n a d pc) = ''Child|'' @ n @ ''|'' @ to_string a @ ''|'' @ d @ ''|'' @ pc
   \<and> toLine (ElderPatient n a d al co) =
       ''Elder|'' @ n @ ''|'' @ to_string a @ ''|'' @ d @ ''|'' @ al @ ''|'' @ co
   \<and> toLine (ChildPatient ''a|b'' 7 ''c'' ''d|'') = ''Child|a|b|7|c|d|''"
proof -
  have general: "toLine p = spec_serializeLine p"
    by (cases p) (simp_all add: spec_serializeLine_def)
  show ?thesis
    by (simp add: general to_string_7)
qed

text \<open>
  C4. On a roster without records \<^verbatim>\<open>removeLastPatient\<close> throws EmptyClinicError and the
  roster is what it was, still without records; on a roster with records it returns and
  the roster has lost exactly its last record, nothing else. The same holds with the
  count read through \<^verbatim>\<open>getPatientsCount\<close>, for a roster whose size fits in \<^verbatim>\<open>int\<close>.
\<close>

theorem removeLastPatient_spec:
  "(length (patients R) = 0 \<longrightarrow>
      removeLastPatient R = (Throw (EmptyClinicError lit_no_patients_to_remove), R)
      \<and> length (patients (snd (removeLastPatient R))) = 0)
   \<and> (0 < length (patients R) \<longrightarrow>
      removeLastPatient R = (Return (), R\<lparr>patients := butlast (patients R)\<rparr>)
      \<and> patients (snd (removeLastPatient R)) @ [last (patients R)] = patients R
      \<and> length (patients (snd (removeLastPatient R))) = length (patients R) - 1
      \<and> name (snd (removeLastPatient R)) = name R
      \<and> address (snd (removeLastPatient R)) = address R
      \<and> doctorsCount (snd (removeLastPatient R)) = doctorsCount R)
   \<and> (length (patients R) \<le> INT_MAX \<and> getPatientsCount R = 0 \<longrightarrow>
      removeLastPatient R = (Throw (EmptyClinicError lit_no_patients_to_remove), R)
      \<and> getPatientsCount (snd (removeLastPatient R)) = 0)
   \<and> (length (patients R) \<le> INT_MAX \<and> 0 < sint (getPatientsCount R) \<longrightarrow>
      fst (removeLastPatient R) = Return ()
      \<and> sint (getPatientsCount (snd (removeLastPatient R))) = sint (getPatientsCount R) - 1)"
proof -
  have empty: "removeLastPatient R = (Throw (EmptyClinicError lit_no_patients_to_remove), R)"
    if "patients R = []"
    using that by (simp add: removeLastPatient_def)
  have nonempty: "removeLastPatient R = (Return (), R\<lparr>patients := butlast (patients R)\<rparr>)"
    if "patients R \<noteq> []"
    using that by (simp add: removeLastPatient_def)
  have c1: "length (patients R) = 0 \<longrightarrow>
      removeLastPatient R = (Throw (EmptyClinicError lit_no_patients_to_remove), R)
      \<and> length (patients (snd (removeLastPatient R))) = 0"
    by (simp add: empty)
  have c2: "0 < length (patients R) \<longrightarrow>
      removeLastPatient R = (Return (), R\<lparr>patients := butlast (patients R)\<rparr>)
      \<and> patients (snd (removeLastPatient R)) @ [last (patients R)] = patients R
      \<and> length (patients (snd (removeLastPatient R))) = length (patients R) - 1
      \<and> name (snd (removeLastPatient R)) = name R
      \<and> address (snd (removeLastPatient R)) = address R
      \<and> doctorsCount (snd (removeLastPatient R)) = doctorsCount R"
    by (simp add: nonempty)
  have c3: "length (patients R) \<le> INT_MAX \<and> getPatientsCount R = 0 \<longrightarrow>
      removeLastPatient R = (Throw (EmptyClinicError lit_no_patients_to_remove), R)
      \<and> getPatientsCount (snd (removeLastPatient R)) = 0"
    by (auto simp: getPatientsCount_eq_0_iff empty)
  have c4: "length (patients R) \<le> INT_MAX \<and> 0 < sint (getPatientsCount R) \<longrightarrow>
      fst (removeLastPatient R) = Return ()
      \<and> sint (getPatientsCount (snd (removeLastPatient R))) = sint (getPatientsCount R) - 1"
  proof
    assume a: "length (patients R) \<le> INT_MAX \<and> 0 < sint (getPatientsCount R)"
    then have ne: "patients R \<noteq> []"
      by (auto simp: getPatientsCount_def)
    let ?R' = "R\<lparr>patients := butlast (patients R)\<rparr>"
    have "length (patients ?R') \<le> length (patients R)" by simp
    with a have "length (patients ?R') \<le> INT_MAX" by linarith
    then have "sint (getPatientsCount ?R') = int (length (patients ?R'))"
      by (rule sint_getPatientsCount)
    moreover have "sint (getPatientsCount R) = int (length (patients R))"
      using a by (simp add: sint_getPatientsCount)
    moreover have "int (length (patients ?R')) = int (length (patients R)) - 1"
      using ne by (simp add: of_nat_diff Suc_leI)
    ultimately show "fst (removeLastPatient R) = Return ()
      \<and> sint (getPatientsCount (snd (removeLastPatient R))) = sint (getPatientsCount R) - 1"
      by (simp add: nonempty [OF ne])
  qed
  from c1 c2 c3 c4 show ?thesis by blast
qed

theorem removeLastPatient_spec_witness:
  "length (patients sample_empty) = 0
   \<and> removeLastPatient sample_empty
       = (Throw (EmptyClinicError lit_no_patients_to_remove), sample_empty)
   \<and> 0 < length (patients sample_clinic)
   \<and> patients (snd (removeLastPatient sample_clinic)) = [sample_child, sample_elder]
   \<and> length (patients sample_empty) \<le> INT_MAX \<and> getPatientsCount sample_empty = 0
   \<and> getPatientsCount (snd (removeLastPatient sample_empty)) = 0
   \<and> length (patients sample_clinic) \<le> INT_MAX \<and> 0 < sint (getPatientsCount sample_clinic)
   \<and> sint (getPatientsCount (snd (removeLastPatient sample_clinic))) = 2"
proof -
  have h1: "length (patients sample_empty) = 0"
    by (simp add: patients_sample_empty)
  have h2: "0 < length (patients sample_clinic)"
    by (simp add: patients_sample_clinic)
  have h3: "length (patients sample_empty) \<le> INT_MAX \<and> getPatientsCount sample_empty = 0"
    by (simp add: patients_sample_empty getPatientsCount_def)
  have cnt: "sint (getPatientsCount sample_clinic) = 3"
    by (simp add: patients_sample_clinic getPatientsCount_def)
  have h4: "length (patients sample_clinic) \<le> INT_MAX \<and> 0 < sint (getPatientsCount sample_clinic)"
    by (simp add: cnt) (simp add: patients_sample_clinic INT_MAX_def)
  have e: "removeLastPatient sample_empty
       = (Throw (EmptyClinicError lit_no_patients_to_remove), sample_empty)"
    using removeLastPatient_spec [of sample_empty] h1 by blast
  have e0: "getPatientsCount (snd (removeLastPatient sample_empty)) = 0"
    using removeLastPatient_spec [of sample_empty] h3 by blast
  have "patients (snd (removeLastPatient sample_clinic)) @ [last (patients sample_clinic)]
       = patients sample_clinic"
    using removeLastPatient_spec [of sample_clinic] h2 by blast
  then have c: "patients (snd (removeLastPatient sample_clinic)) = [sample_child, sample_elder]"
    by (simp add: patients_sample_clinic)
  have "sint (getPatientsCount (snd (removeLastPatient sample_clinic)))
       = sint (getPatientsCount sample_clinic) - 1"
    using removeLastPatient_spec [of sample_clinic] h4 by blast
  then have c2: "sint (getPatientsCount (snd (removeLastPatient sample_clinic))) = 2"
    by (simp add: cnt)
  from h1 h2 h3 h4 e e0 c c2 show ?thesis by blast
qed

text \<open>
  C5. \<^verbatim>\<open>removePatientByIndex\<close> with an index at or beyond the size throws
  PatientIndexError and the roster is what it was. With an index \<open>i\<close> below the size it
  returns, and the roster has lost exactly the record at position \<open>i\<close>: it is one
  shorter, the records before \<open>i\<close> are in place, each record behind \<open>i\<close> is one position
  lower, and the scalar fields are untouched.
\<close>

theorem removePatientByIndex_spec:
  "(length (patients R) \<le> i \<longrightarrow>
      removePatientByIndex R i = (Throw (PatientIndexError lit_index_out_of_range), R)
      \<and> patients (snd (removePatientByIndex R i)) = patients R)
   \<and> (i < length (patients R) \<longrightarrow>
      removePatientByIndex R i
        = (Return (), R\<lparr>patients := take i (patients R) @ drop (Suc i) (patients R)\<rparr>)
      \<and> length (patients (snd (removePatientByIndex R i))) = length (patients R) - 1
      \<and> (\<forall>j < i. patients (snd (removePatientByIndex R i)) ! j = patients R ! j)
      \<and> (\<forall>j. i \<le> j \<and> j < length (patients R) - 1 \<longrightarrow>
            patients (snd (removePatientByIndex R i)) ! j = patients R ! Suc j)
      \<and> name (snd (removePatientByIndex R i)) = name R
      \<and> address (snd (removePatientByIndex R i)) = address R
      \<and> doctorsCount (snd (removePatientByIndex R i)) = doctorsCount R)"
proof -
  have out: "length (patients R) \<le> i \<longrightarrow>
      removePatientByIndex R i = (Throw (PatientIndexError lit_index_out_of_range), R)
      \<and> patients (snd (removePatientByIndex R i)) = patients R"
    by (simp add: removePatientByIndex_def)
  have inside: "i < length (patients R) \<longrightarrow>
      removePatientByIndex R i
        = (Return (), R\<lparr>patients := take i (patients R) @ drop (Suc i) (patients R)\<rparr>)
      \<and> length (patients (snd (removePatientByIndex R i))) = length (patients R) - 1
      \<and> (\<forall>j < i. patients (snd (removePatientByIndex R i)) ! j = patients R ! j)
      \<and> (\<forall>j. i \<le> j \<and> j < length (patients R) - 1 \<longrightarrow>
            patients (snd (removePatientByIndex R i)) ! j = patients R ! Suc j)
      \<and> name (snd (removePatientByIndex R i)) = name R
      \<and> address (snd (removePatientByIndex R i)) = address R
      \<and> doctorsCount (snd (removePatientByIndex R i)) = doctorsCount R"
  proof
    assume lt: "i < length (patients R)"
    let ?ps = "take i (patients R) @ drop (Suc i) (patients R)"
    have res: "removePatientByIndex R i = (Return (), R\<lparr>patients := ?ps\<rparr>)"
      using lt by (simp add: removePatientByIndex_def erase_take_drop)
    have len: "length ?ps = length (patients R) - 1"
      using lt by simp
    have before: "?ps ! j = patients R ! j" if "j < i" for j
      using that lt by (simp add: nth_append)
    have behind: "?ps ! j = patients R ! Suc j" if "i \<le> j" "j < length (patients R) - 1" for j
    proof -
      have "?ps ! j = drop (Suc i) (patients R) ! (j - i)"
        using that lt by (simp add: nth_append min_absorb2)
      also have "\<dots> = patients R ! (Suc i + (j - i))"
        using that lt by (intro nth_drop) simp
      also have "Suc i + (j - i) = Suc j"
        using that by simp
      finally show ?thesis .
    qed
    from res len before behind
    show "removePatientByIndex R i
        = (Return (), R\<lparr>patients := take i (patients R) @ drop (Suc i) (patients R)\<rparr>)
      \<and> length (patients (snd (removePatientByIndex R i))) = length (patients R) - 1
      \<and> (\<forall>j < i. patients (snd (removePatientByIndex R i)) ! j = patients R ! j)
      \<and> (\<forall>j. i \<le> j \<and> j < length (patients R) - 1 \<longrightarrow>
            patients (snd (removePatientByIndex R i)) ! j = patients R ! Suc j)
      \<and> name (snd (removePatientByIndex R i)) = name R
      \<and> address (snd (removePatientByIndex R i)) = address R
      \<and> doctorsCount (snd (removePatientByIndex R i)) = doctorsCount R"
      by simp
  qed
  from out inside show ?thesis by blast
qed

theorem removePatientByIndex_spec_witness:
  "length (patients sample_clinic) \<le> 999
   \<and> removePatientByIndex sample_clinic 999
       = (Throw (PatientIndexError lit_index_out_of_range), sample_clinic)
   \<and> (0::nat) < length (patients sample_clinic)
   \<and> patients (snd (removePatientByIndex sample_clinic 0)) = [sample_elder, sample_patient]
   \<and> (1::nat) < length (patients sample_clinic)
   \<and> (0::nat) < 1 \<and> patients (snd (removePatientByIndex sample_clinic 1)) ! 0 = sample_child
   \<and> (1::nat) \<le> 1 \<and> (1::nat) < length (patients sample_clinic) - 1
   \<and> patients (snd (removePatientByIndex sample_clinic 1)) ! 1 = sample_patient"
proof -
  have h1: "length (patients sample_clinic) \<le> 999"
    by (simp add: patients_sample_clinic)
  have h2: "(0::nat) < length (patients sample_clinic)"
    by (simp add: patients_sample_clinic)
  have h3: "(1::nat) < length (patients sample_clinic)"
    by (simp add: patients_sample_clinic)
  have h4: "(1::nat) \<le> 1 \<and> (1::nat) < length (patients sample_clinic) - 1"
    by (simp add: patients_sample_clinic)
  have t: "removePatientByIndex sample_clinic 999
       = (Throw (PatientIndexError lit_index_out_of_range), sample_clinic)"
    using removePatientByIndex_spec [of sample_clinic 999] h1 by blast
  have "removePatientByIndex sample_clinic 0
        = (Return (), sample_clinic\<lparr>patients :=
             take 0 (patients sample_clinic) @ drop (Suc 0) (patients sample_clinic)\<rparr>)"
    using removePatientByIndex_spec [of sample_clinic 0] h2 by blast
  then have r0: "patients (snd (removePatientByIndex sample_clinic 0)) = [sample_elder, sample_patient]"
    by (simp add: patients_sample_clinic)
  have "(0::nat) < 1" by simp
  then have "patients (snd (removePatientByIndex sample_clinic 1)) ! 0 = patients sample_clinic ! 0"
    using removePatientByIndex_spec [of sample_clinic 1] h3 by blast
  then have r1: "patients (snd (removePatientByIndex sample_clinic 1)) ! 0 = sample_child"
    by (simp add: patients_sample_clinic)
  have "patients (snd (removePatientByIndex sample_clinic 1)) ! 1 = patients sample_clinic ! Suc 1"
    using removePatientByIndex_spec [of sample_clinic 1] h3 h4 by blast
  then have r2: "patients (snd (removePatientByIndex sample_clinic 1)) ! 1 = sample_patient"
    by (simp add: patients_sample_clinic)
  from h1 h2 h3 h4 t r0 r1 r2 show ?thesis by simp
qed

text \<open>
  C6, as the specification words it: the number of doctors of the roster returned by
  \<^verbatim>\<open>operator+\<close> would be the sum of the two numbers of doctors. The source adds them as
  \<^verbatim>\<open>int\<close>: for a roster constructed with 2147483647 doctors and one constructed with 1
  doctor the sum is 2147483648, which no \<^verbatim>\<open>int\<close> holds, and the returned roster has
  another number.
\<close>

theorem operator_plus_sum_counterexample:
  "sint (doctorsCount (fst (operator_plus (Polyclinic_ctor ''A'' ''Main St 1'' 2147483647)
                                          (Polyclinic_ctor ''B'' ''Side St 2'' 1))))
     \<noteq> sint (doctorsCount (Polyclinic_ctor ''A'' ''Main St 1'' 2147483647))
         + sint (doctorsCount (Polyclinic_ctor ''B'' ''Side St 2'' 1))"
  by (simp add: operator_plus_def Let_def Polyclinic_copy_def Polyclinic_ctor_def)

text \<open>
  C6, amended. \<^verbatim>\<open>operator+\<close> on rosters \<open>A\<close> and \<open>B\<close> returns a roster whose name is
  \<open>A\<close>'s name, the three characters space, plus, space, and \<open>B\<close>'s name; whose number of
  doctors is the two numbers added as \<^verbatim>\<open>int\<close>, which is their sum whenever that sum
  fits in \<^verbatim>\<open>int\<close>; and whose records are clones of \<open>A\<close>'s records followed by clones of
  \<open>B\<close>'s records in order, equal to the originals, so that the count is the sum of the two
  counts. After the call \<open>A\<close> is what it was and \<open>B\<close> is what it was.
\<close>

theorem operator_plus_spec:
  "name (fst (operator_plus A B)) = name A @ '' + '' @ name B
   \<and> doctorsCount (fst (operator_plus A B)) = doctorsCount A + doctorsCount B
   \<and> (- (2 ^ 31) \<le> sint (doctorsCount A) + sint (doctorsCount B)
        \<and> sint (doctorsCount A) + sint (doctorsCount B) < 2 ^ 31 \<longrightarrow>
      sint (doctorsCount (fst (operator_plus A B)))
        = sint (doctorsCount A) + sint (doctorsCount B))
   \<and> patients (fst (operator_plus A B)) = map clone (patients A) @ map clone (patients B)
   \<and> patients (fst (operator_plus A B)) = patients A @ patients B
   \<and> length (patients (fst (operator_plus A B))) = length (patients A) + length (patients B)
   \<and> getPatientsCount (fst (operator_plus A B)) = getPatientsCount A + getPatientsCount B
   \<and> fst (snd (operator_plus A B)) = A
   \<and> snd (snd (operator_plus A B)) = B"
proof -
  have nm: "name (fst (operator_plus A B)) = name A @ '' + '' @ name B"
    by (simp add: operator_plus_def Let_def)
  have dc: "doctorsCount (fst (operator_plus A B)) = doctorsCount A + doctorsCount B"
    by (simp add: operator_plus_def Let_def)
  have ps: "patients (fst (operator_plus A B)) = map clone (patients A) @ map clone (patients B)"
    by (simp add: operator_plus_def Let_def Polyclinic_copy_def push_back_clones_append)
  have ps': "patients (fst (operator_plus A B)) = patients A @ patients B"
    by (simp add: ps map_clone_same)
  have cnt: "getPatientsCount (fst (operator_plus A B)) = getPatientsCount A + getPatientsCount B"
    by (simp add: getPatientsCount_def ps')
  have fits: "- (2 ^ 31) \<le> sint (doctorsCount A) + sint (doctorsCount B)
        \<and> sint (doctorsCount A) + sint (doctorsCount B) < 2 ^ 31 \<longrightarrow>
      sint (doctorsCount (fst (operator_plus A B)))
        = sint (doctorsCount A) + sint (doctorsCount B)"
    by (simp add: dc sint_plus_32)
  have len: "length (patients (fst (operator_plus A B))) = length (patients A) + length (patients B)"
    by (simp add: ps')
  have operands: "fst (snd (operator_plus A B)) = A \<and> snd (snd (operator_plus A B)) = B"
    by (simp add: operator_plus_def Let_def)
  from nm dc fits ps ps' len cnt operands show ?thesis by blast
qed

theorem operator_plus_spec_witness:
  "- (2 ^ 31) \<le> sint (doctorsCount sample_clinic) + sint (doctorsCount sample_other)
   \<and> sint (doctorsCount sample_clinic) + sint (doctorsCount sample_other) < 2 ^ 31
   \<and> sint (doctorsCount (fst (operator_plus sample_clinic sample_other))) = 29
   \<and> name (fst (operator_plus sample_clinic sample_other)) = ''City Clinic 1 + Clinic 2''
   \<and> patients (fst (operator_plus sample_clinic sample_other))
       = [sample_child, sample_elder, sample_patient,
          ChildPatient ''Oleg'' 12 ''Injury'' ''+380631234567'']
   \<and> patients (fst (snd (operator_plus sample_clinic sample_other)))
       = [sample_child, sample_elder, sample_patient]
   \<and> patients (snd (snd (operator_plus sample_clinic sample_other)))
       = [ChildPatient ''Oleg'' 12 ''Injury'' ''+380631234567'']"
proof -
  have d1: "doctorsCount sample_clinic = 25"
    by (simp add: sample_clinic_def addPatient_def addElder_def addChild_def Polyclinic_ctor_def)
  have d2: "doctorsCount sample_other = 4"
    by (simp add: sample_other_def addPatient_def addChild_def Polyclinic_ctor_def)
  have n1: "name sample_clinic = ''City Clinic 1''"
    by (simp add: sample_clinic_def addPatient_def addElder_def addChild_def Polyclinic_ctor_def)
  have n2: "name sample_other = ''Clinic 2''"
    by (simp add: sample_other_def addPatient_def addChild_def Polyclinic_ctor_def)
  have h: "- (2 ^ 31) \<le> sint (doctorsCount sample_clinic) + sint (doctorsCount sample_other)
   \<and> sint (doctorsCount sample_clinic) + sint (doctorsCount sample_other) < 2 ^ 31"
    by (simp add: d1 d2)
  have "sint (doctorsCount (fst (operator_plus sample_clinic sample_other)))
      = sint (doctorsCount sample_clinic) + sint (doctorsCount sample_other)"
    using operator_plus_spec [of sample_clinic sample_other] h by blast
  then have s: "sint (doctorsCount (fst (operator_plus sample_clinic sample_other))) = 29"
    by (simp add: d1 d2)
  have "name (fst (operator_plus sample_clinic sample_other))
      = name sample_clinic @ '' + '' @ name sample_other"
    using operator_plus_spec [of sample_clinic sample_other] by blast
  then have n: "name (fst (operator_plus sample_clinic sample_other)) = ''City Clinic 1 + Clinic 2''"
    by (simp add: n1 n2)
  have "patients (fst (operator_plus sample_clinic sample_other))
      = patients sample_clinic @ patients sample_other"
    using operator_plus_spec [of sample_clinic sample_other] by blast
  then have p: "patients (fst (operator_plus sample_clinic sample_other))
       = [sample_child, sample_elder, sample_patient,
          ChildPatient ''Oleg'' 12 ''Injury'' ''+380631234567'']"
    by (simp add: patients_sample_clinic patients_sample_other)
  have "fst (snd (operator_plus sample_clinic sample_other)) = sample_clinic"
    using operator_plus_spec [of sample_clinic sample_other] by blast
  then have a: "patients (fst (snd (operator_plus sample_clinic sample_other)))
       = [sample_child, sample_elder, sample_patient]"
    by (simp add: patients_sample_clinic)
  have "snd (snd (operator_plus sample_clinic sample_other)) = sample_other"
    using operator_plus_spec [of sample_clinic sample_other] by blast
  then have b: "patients (snd (snd (operator_plus sample_clinic sample_other)))
       = [ChildPatient ''Oleg'' 12 ''Injury'' ''+380631234567'']"
    by (simp add: patients_sample_other)
  from h s n p a b show ?thesis by blast
qed

text \<open>
  C7. \<^verbatim>\<open>Polyclinic::operator==\<close> holds of two rosters exactly when their
  \<^verbatim>\<open>getPatientsCount\<close> values are equal. Nothing else plays a role: two pairs of rosters
  with the same sizes compare alike, whatever their records, names, addresses and numbers
  of doctors. For rosters whose sizes fit in \<^verbatim>\<open>int\<close> it holds exactly when the sizes are
  equal.
\<close>

theorem Polyclinic_eq_spec:
  "(Polyclinic_eq A B \<longleftrightarrow> getPatientsCount A = getPatientsCount B)
   \<and> (length (patients A') = length (patients A) \<and> length (patients B') = length (patients B)
        \<longrightarrow> Polyclinic_eq A' B' = Polyclinic_eq A B)
   \<and> (length (patients A) \<le> INT_MAX \<and> length (patients B) \<le> INT_MAX
        \<longrightarrow> (Polyclinic_eq A B \<longleftrightarrow> length (patients A) = length (patients B)))"
proof -
  have by_count: "Polyclinic_eq A B \<longleftrightarrow> getPatientsCount A = getPatientsCount B"
    by (simp add: Polyclinic_eq_def)
  have only_sizes: "length (patients A') = length (patients A)
        \<and> length (patients B') = length (patients B)
        \<longrightarrow> Polyclinic_eq A' B' = Polyclinic_eq A B"
    by (simp add: Polyclinic_eq_def getPatientsCount_def)
  have in_range: "length (patients A) \<le> INT_MAX \<and> length (patients B) \<le> INT_MAX
        \<longrightarrow> (Polyclinic_eq A B \<longleftrightarrow> length (patients A) = length (patients B))"
  proof
    assume fit: "length (patients A) \<le> INT_MAX \<and> length (patients B) \<le> INT_MAX"
    show "Polyclinic_eq A B \<longleftrightarrow> length (patients A) = length (patients B)"
    proof
      assume "Polyclinic_eq A B"
      then have "sint (getPatientsCount A) = sint (getPatientsCount B)"
        by (simp add: Polyclinic_eq_def)
      with fit show "length (patients A) = length (patients B)"
        by (simp add: sint_getPatientsCount)
    next
      assume "length (patients A) = length (patients B)"
      then show "Polyclinic_eq A B"
        by (simp add: Polyclinic_eq_def getPatientsCount_def)
    qed
  qed
  from by_count only_sizes in_range show ?thesis by blast
qed

theorem Polyclinic_eq_spec_witness:
  "length (patients sample_other) = length (patients (operator_preinc sample_empty))
   \<and> length (patients sample_empty) = length (patients sample_empty)
   \<and> Polyclinic_eq sample_other sample_empty
       = Polyclinic_eq (operator_preinc sample_empty) sample_empty
   \<and> length (patients sample_clinic) \<le> INT_MAX \<and> length (patients sample_other) \<le> INT_MAX
   \<and> \<not> Polyclinic_eq sample_clinic sample_other
   \<and> Polyclinic_eq sample_other (operator_preinc sample_empty)"
proof -
  have p: "patients (operator_preinc sample_empty) = [Patient_default]"
    by (simp add: operator_preinc_def addPatient_def patients_sample_empty clone_same)
  have h1: "length (patients sample_other) = length (patients (operator_preinc sample_empty))
      \<and> length (patients sample_empty) = length (patients sample_empty)"
    by (simp add: p patients_sample_other)
  have h2: "length (patients sample_clinic) \<le> INT_MAX \<and> length (patients sample_other) \<le> INT_MAX"
    by (simp add: patients_sample_clinic patients_sample_other INT_MAX_def)
  have h3: "length (patients sample_other) \<le> INT_MAX
      \<and> length (patients (operator_preinc sample_empty)) \<le> INT_MAX"
    by (simp add: p patients_sample_other INT_MAX_def)
  have r1: "Polyclinic_eq sample_other sample_empty
       = Polyclinic_eq (operator_preinc sample_empty) sample_empty"
    using Polyclinic_eq_spec [of "operator_preinc sample_empty" sample_empty sample_other sample_empty] h1
    by blast
  have "Polyclinic_eq sample_clinic sample_other
      \<longleftrightarrow> length (patients sample_clinic) = length (patients sample_other)"
    using Polyclinic_eq_spec [of sample_clinic sample_other] h2 by blast
  then have r2: "\<not> Polyclinic_eq sample_clinic sample_other"
    by (simp add: patients_sample_clinic patients_sample_other)
  have "Polyclinic_eq sample_other (operator_preinc sample_empty)
      \<longleftrightarrow> length (patients sample_other) = length (patients (operator_preinc sample_empty))"
    using Polyclinic_eq_spec [of sample_other "operator_preinc sample_empty"] h3 by blast
  then have r3: "Polyclinic_eq sample_other (operator_preinc sample_empty)"
    by (simp add: p patients_sample_other)
  from h1 h2 r1 r2 r3 show ?thesis by blast
qed

text \<open>
  C8. The postfix \<^verbatim>\<open>operator++\<close> on a roster \<open>R\<close> returns a roster equal to \<open>R\<close> as it
  was before the call, in its scalar fields and in its records, and leaves the receiver
  with the same scalar fields and one record more: the records of \<open>R\<close> followed by a
  default-constructed plain Patient. The returned roster is a value of its own: it does
  not hold the appended record.
\<close>

theorem operator_postinc_spec:
  "fst (operator_postinc R) = R
   \<and> name (fst (operator_postinc R)) = name R
   \<and> address (fst (operator_postinc R)) = address R
   \<and> doctorsCount (fst (operator_postinc R)) = doctorsCount R
   \<and> patients (fst (operator_postinc R)) = patients R
   \<and> patients (snd (operator_postinc R)) = patients R @ [Patient_default]
   \<and> length (patients (snd (operator_postinc R))) = length (patients R) + 1
   \<and> getPatientsCount (snd (operator_postinc R)) = getPatientsCount R + 1
   \<and> last (patients (snd (operator_postinc R))) = Patient_default
   \<and> dynamic_class (last (patients (snd (operator_postinc R)))) = Class_Patient
   \<and> name (snd (operator_postinc R)) = name R
   \<and> address (snd (operator_postinc R)) = address R
   \<and> doctorsCount (snd (operator_postinc R)) = doctorsCount R
   \<and> patients (fst (operator_postinc R)) \<noteq> patients (snd (operator_postinc R))"
proof -
  have ret: "fst (operator_postinc R) = R"
    by (simp add: operator_postinc_def Let_def Polyclinic_copy_same)
  have recv: "snd (operator_postinc R) = R\<lparr>patients := patients R @ [Patient_default]\<rparr>"
    by (simp add: operator_postinc_def Let_def operator_preinc_def addPatient_def clone_same)
  have cls: "dynamic_class Patient_default = Class_Patient"
    by (simp add: Patient_default_def)
  show ?thesis
    by (simp add: ret recv cls getPatientsCount_def)
qed

text \<open>
  C9. \<^verbatim>\<open>Patient::operator==\<close> holds of two records, of any classes, exactly when their
  names are equal and their ages are equal. The disease, the members of the derived
  classes and the classes themselves play no role: replacing either record by one of the
  same name and age, of whatever class and other content, leaves the comparison as it is.
\<close>

theorem Patient_eq_spec:
  "(Patient_eq x y \<longleftrightarrow> getName x = getName y \<and> getAge x = getAge y)
   \<and> (getName x' = getName x \<and> getAge x' = getAge x
        \<and> getName y' = getName y \<and> getAge y' = getAge y
      \<longrightarrow> Patient_eq x' y' = Patient_eq x y)
   \<and> Patient_eq (Patient n a d) (ChildPatient n a d' pc)
   \<and> Patient_eq (ChildPatient n a d pc) (ElderPatient n a d' al co)
   \<and> Patient_eq (ElderPatient n a d al co) (Patient n a d')"
  by (simp add: Patient_eq_def)

theorem Patient_eq_spec_witness:
  "getName (ElderPatient ''Marta'' 7 ''Flu'' ''Pollen'' ''None'') = getName sample_child
   \<and> getAge (ElderPatient ''Marta'' 7 ''Flu'' ''Pollen'' ''None'') = getAge sample_child
   \<and> getName (Patient ''Marta'' 7 ''Asthma'') = getName sample_child
   \<and> getAge (Patient ''Marta'' 7 ''Asthma'') = getAge sample_child
   \<and> Patient_eq (ElderPatient ''Marta'' 7 ''Flu'' ''Pollen'' ''None'') (Patient ''Marta'' 7 ''Asthma'')
   \<and> \<not> Patient_eq sample_child sample_elder"
proof -
  have h: "getName (ElderPatient ''Marta'' 7 ''Flu'' ''Pollen'' ''None'') = getName sample_child
   \<and> getAge (ElderPatient ''Marta'' 7 ''Flu'' ''Pollen'' ''None'') = getAge sample_child
   \<and> getName (Patient ''Marta'' 7 ''Asthma'') = getName sample_child
   \<and> getAge (Patient ''Marta'' 7 ''Asthma'') = getAge sample_child"
    by (simp add: sample_child_def)
  have same: "Patient_eq sample_child sample_child"
    using Patient_eq_spec [of sample_child sample_child] by blast
  have "Patient_eq (ElderPatient ''Marta'' 7 ''Flu'' ''Pollen'' ''None'') (Patient ''Marta'' 7 ''Asthma'')
      = Patient_eq sample_child sample_child"
    using Patient_eq_spec [of sample_child sample_child
        "ElderPatient ''Marta'' 7 ''Flu'' ''Pollen'' ''None''" "Patient ''Marta'' 7 ''Asthma''"] h
    by blast
  with same have r: "Patient_eq (ElderPatient ''Marta'' 7 ''Flu'' ''Pollen'' ''None'')
      (Patient ''Marta'' 7 ''Asthma'')"
    by simp
  have "Patient_eq sample_child sample_elder
      \<longleftrightarrow> getName sample_child = getName sample_elder \<and> getAge sample_child = getAge sample_elder"
    using Patient_eq_spec [of sample_child sample_elder] by blast
  then have d: "\<not> Patient_eq sample_child sample_elder"
    by (simp add: sample_child_def sample_elder_def)
  from h r d show ?thesis by blast
qed

text \<open>
  C10. The roster returned by \<^verbatim>\<open>operator+\<close> on \<open>A\<close> and \<open>B\<close> has \<open>A\<close>'s address: the
  result starts as a copy of the left operand, and the address is not assigned
  afterwards.
\<close>

theorem operator_plus_address:
  "address (fst (operator_plus A B)) = address A"
  by (simp add: operator_plus_def Let_def Polyclinic_copy_def)

end
